theory Spec2Isabelle
  imports Main
begin

section \<open>Python values, types and exceptions\<close>

text \<open>
  The values that field defaults, attribute values and validator arguments range over.
  \<open>PCallable r\<close> stands for a zero-argument producer that returns \<open>r\<close> and is neither a
  class nor a descriptor (an object whose class defines \<open>__call__\<close>, a builtin), so that
  attribute lookup hands it out as it is. Floating-point values and containers are left
  out of the value universe.
\<close>

datatype pyval =
    PNone
  | PBool bool
  | PInt int
  | PStr string
  | PObjectId string
  | PCallable pyval

text \<open>The classes that occur as \<open>field_type\<close> in \<open>base.py\<close>.\<close>

datatype pytype = T_str | T_int | T_bool | T_float | T_ObjectId | T_type

text \<open>Python truth value testing (\<open>if x:\<close>, \<open>not x\<close>, \<open>bool(x)\<close>, \<open>x or y\<close>).\<close>

fun truthy :: "pyval \<Rightarrow> bool" where
  "truthy PNone = False"
| "truthy (PBool b) = b"
| "truthy (PInt i) = (i \<noteq> 0)"
| "truthy (PStr s) = (s \<noteq> [])"
| "truthy (PObjectId _) = True"
| "truthy (PCallable _) = True"

text \<open>\<open>isinstance(value, t)\<close>; \<open>bool\<close> is a subclass of \<open>int\<close>.\<close>

fun isinstance :: "pyval \<Rightarrow> pytype \<Rightarrow> bool" where
  "isinstance (PStr _) T_str = True"
| "isinstance (PInt _) T_int = True"
| "isinstance (PBool _) T_int = True"
| "isinstance (PBool _) T_bool = True"
| "isinstance (PObjectId _) T_ObjectId = True"
| "isinstance _ _ = False"

fun callable :: "pyval \<Rightarrow> bool" where
  "callable (PCallable _) = True"
| "callable _ = False"

text \<open>
  Exceptions are a class and their arguments. The arguments are kept structured instead
  of being formatted to text: \<open>ValueNotInstance v t\<close> is the message
  \<open>f'value {repr(value)} is not a {self.field_type}'\<close>.
\<close>

datatype exc_class = TypeError | RuntimeError | KeyError | AttributeError | ValueError

datatype message =
    FieldNameNotString
  | ValueNotInstance pyval pytype
  | DuplicatePrimaryKey string
  | PrimaryKeyNotFound
  | Missing string
  | NotCallable
  | Text string

datatype pyexc = Exc exc_class message

fun exc_class_of :: "pyexc \<Rightarrow> exc_class" where
  "exc_class_of (Exc c _) = c"

section \<open>Field descriptors (\<open>MongoField\<close> and its presets)\<close>

text \<open>
  A validator is a callable that either returns or raises; \<open>None\<close> is no validator.
  \<open>default_val\<close> is the attribute \<open>default\<close> of the source.
\<close>

record MongoField =
  field_name :: string
  field_type :: pytype
  default_val :: pyval
  pk :: bool
  required :: bool
  unique :: bool
  type_check :: bool
  validation :: "(pyval \<Rightarrow> pyexc option) option"

text \<open>
  \<open>MongoField.__init__\<close>. The \<open>field_type\<close> argument is a class by its type here, so the
  second \<open>isinstance\<close> test of the constructor always passes; the flags go through
  \<open>bool(...)\<close>.
\<close>

definition MongoField_init ::
  "pyval \<Rightarrow> pytype \<Rightarrow> pyval \<Rightarrow> pyval \<Rightarrow> pyval \<Rightarrow> pyval \<Rightarrow> pyval \<Rightarrow>
   (pyval \<Rightarrow> pyexc option) option \<Rightarrow> pyexc + MongoField" where
  "MongoField_init name ty dflt pk_arg required_arg unique_arg type_check_arg validation_arg =
     (case name of
        PStr s \<Rightarrow>
          Inr \<lparr> field_name = s, field_type = ty, default_val = dflt,
                pk = truthy pk_arg, required = truthy required_arg,
                unique = truthy unique_arg, type_check = truthy type_check_arg,
                validation = validation_arg \<rparr>
      | _ \<Rightarrow> Inl (Exc TypeError FieldNameNotString))"

definition CommonField ::
  "pyval \<Rightarrow> pyval \<Rightarrow> pyval \<Rightarrow> pyval \<Rightarrow> (pyval \<Rightarrow> pyexc option) option \<Rightarrow> pyexc + MongoField" where
  "CommonField name dflt required_arg unique_arg validation_arg =
     MongoField_init name T_type dflt (PBool False) required_arg unique_arg (PBool False)
       validation_arg"

definition StringField ::
  "pyval \<Rightarrow> pyval \<Rightarrow> pyval \<Rightarrow> pyval \<Rightarrow> pyval \<Rightarrow> (pyval \<Rightarrow> pyexc option) option \<Rightarrow>
   pyexc + MongoField" where
  "StringField name dflt required_arg unique_arg type_check_arg validation_arg =
     MongoField_init name T_str dflt (PBool False) required_arg unique_arg type_check_arg
       validation_arg"

definition IntegerField ::
  "pyval \<Rightarrow> pyval \<Rightarrow> pyval \<Rightarrow> pyval \<Rightarrow> pyval \<Rightarrow> (pyval \<Rightarrow> pyexc option) option \<Rightarrow>
   pyexc + MongoField" where
  "IntegerField name dflt required_arg unique_arg type_check_arg validation_arg =
     MongoField_init name T_int dflt (PBool False) required_arg unique_arg type_check_arg
       validation_arg"

definition BooleanField ::
  "pyval \<Rightarrow> pyval \<Rightarrow> pyval \<Rightarrow> pyval \<Rightarrow> pyval \<Rightarrow> (pyval \<Rightarrow> pyexc option) option \<Rightarrow>
   pyexc + MongoField" where
  "BooleanField name dflt required_arg unique_arg type_check_arg validation_arg =
     MongoField_init name T_bool dflt (PBool False) required_arg unique_arg type_check_arg
       validation_arg"

definition FloatField ::
  "pyval \<Rightarrow> pyval \<Rightarrow> pyval \<Rightarrow> pyval \<Rightarrow> pyval \<Rightarrow> (pyval \<Rightarrow> pyexc option) option \<Rightarrow>
   pyexc + MongoField" where
  "FloatField name dflt required_arg unique_arg type_check_arg validation_arg =
     MongoField_init name T_float dflt (PBool False) required_arg unique_arg type_check_arg
       validation_arg"

text \<open>\<open>_IdField()\<close>: the constructor call with every argument fixed.\<close>

definition IdField_init :: "pyexc + MongoField" where
  "IdField_init =
     MongoField_init (PStr ''_id'') T_ObjectId PNone (PBool True) (PBool False) (PBool False)
       (PBool False) None"

text \<open>The descriptor that \<open>_IdField()\<close> returns.\<close>

definition IdField :: MongoField where
  "IdField =
     \<lparr> field_name = ''_id'', field_type = T_ObjectId, default_val = PNone, pk = True,
       required = False, unique = False, type_check = False, validation = None \<rparr>"

text \<open>
  \<open>MongoField.validate(value)\<close>, called without keyword data as every call site in
  \<open>base.py\<close> does. The type test comes first; the validator runs only after it.
\<close>

definition validate :: "MongoField \<Rightarrow> pyval \<Rightarrow> pyexc + unit" where
  "validate f v =
     (if type_check f \<and> \<not> isinstance v (field_type f)
      then Inl (Exc TypeError (ValueNotInstance v (field_type f)))
      else (case validation f of
              None \<Rightarrow> Inr ()
            | Some check \<Rightarrow> (case check v of Some e \<Rightarrow> Inl e | None \<Rightarrow> Inr ())))"


section \<open>Dictionaries and the store of list objects\<close>

text \<open>
  A \<open>dict\<close> is an association list in insertion order. \<open>dict_set\<close> is \<open>d[k] = v\<close>: an
  existing key keeps its position, a new key goes to the end. Lookup is \<open>map_of\<close>.
\<close>

fun dict_set :: "'k \<Rightarrow> 'v \<Rightarrow> ('k \<times> 'v) list \<Rightarrow> ('k \<times> 'v) list" where
  "dict_set k v [] = [(k, v)]"
| "dict_set k v (p # ps) = (if fst p = k then (k, v) # ps else p # dict_set k v ps)"

text \<open>
  The list that \<open>attrs['__modified__'] = []\<close> creates is an object of its own, reached
  through the class from every instance. The store maps the address of each such list to
  its contents; \<open>next_ref\<close> is the first unused address.
\<close>

record heap =
  cells :: "nat \<Rightarrow> string list"
  next_ref :: nat

definition empty_heap :: heap where
  "empty_heap = \<lparr> cells = (\<lambda>_. []), next_ref = 0 \<rparr>"

definition new_list :: "heap \<Rightarrow> nat \<times> heap" where
  "new_list h = (next_ref h, h\<lparr> cells := (cells h)(next_ref h := []), next_ref := Suc (next_ref h) \<rparr>)"

section \<open>Schema registration (\<open>ModelMetaclass.__new__\<close>)\<close>

text \<open>
  An entry of a class body is a field descriptor (\<open>isinstance(v, MongoField)\<close>) or
  anything else.
\<close>

datatype attr = FieldObj MongoField | Plain pyval

fun attr_truthy :: "attr \<Rightarrow> bool" where
  "attr_truthy (FieldObj _) = True"
| "attr_truthy (Plain v) = truthy v"

text \<open>
  The variable \<open>pk\<close> of the registrar holds \<open>None\<close> or an attribute name, and is tested
  by truth value (\<open>if pk:\<close>, \<open>if not pk:\<close>): the empty name counts as no key.
\<close>

fun name_truthy :: "string option \<Rightarrow> bool" where
  "name_truthy None = False"
| "name_truthy (Some s) = (s \<noteq> [])"

text \<open>\<open>str.lower()\<close> on ASCII names.\<close>

definition lower_char :: "char \<Rightarrow> char" where
  "lower_char c =
     (let n = (of_char c :: nat) in if 65 \<le> n \<and> n \<le> 90 then char_of (n + 32) else c)"

definition lower :: "string \<Rightarrow> string" where
  "lower s = map lower_char s"

text \<open>
  The state of the loop over \<open>attrs.items()\<close>: the locals \<open>mappings\<close>, \<open>fields\<close> and
  \<open>pk\<close>, and the entries of \<open>attrs\<close> visited so far. The keys of a dict are distinct, so
  \<open>attrs[k] = v.default\<close> rewrites the entry being visited and no other; the loop
  therefore emits each visited entry, rewritten or not, in order.
\<close>

record scan_state =
  st_mappings :: "(string \<times> MongoField) list"
  st_fields :: "string list"
  st_pk :: "string option"
  st_attrs :: "(string \<times> pyval) list"

definition scan_init :: scan_state where
  "scan_init = \<lparr> st_mappings = [], st_fields = [], st_pk = None, st_attrs = [] \<rparr>"

fun scan :: "(string \<times> attr) list \<Rightarrow> scan_state \<Rightarrow> pyexc + scan_state" where
  "scan [] st = Inr st"
| "scan ((k, FieldObj v) # rest) st =
     (if pk v then
        (if name_truthy (st_pk st) then Inl (Exc RuntimeError (DuplicatePrimaryKey k))
         else scan rest
                (st\<lparr> st_mappings := dict_set k v (st_mappings st), st_pk := Some k,
                     st_attrs := st_attrs st @ [(k, default_val v)] \<rparr>))
      else scan rest
             (st\<lparr> st_mappings := dict_set k v (st_mappings st),
                  st_attrs := st_attrs st @ [(k, default_val v)] \<rparr>))"
| "scan ((k, Plain v) # rest) st =
     scan rest (st\<lparr> st_fields := st_fields st @ [k], st_attrs := st_attrs st @ [(k, v)] \<rparr>)"

text \<open>
  The class that registration returns. \<open>cls_mappings\<close>, \<open>cls_table\<close>, \<open>cls_pk\<close>,
  \<open>cls_fields\<close> and \<open>cls_modified\<close> are what lines 127-131 bind to the names
  \<open>__mappings__\<close>, \<open>__table__\<close>, \<open>__pk__\<close>, \<open>__fields__\<close> and \<open>__modified__\<close> of the
  class; the last is the address of the list object. \<open>cls_attrs\<close> is the namespace as
  the loop leaves it, the field entries rewritten to their defaults: it gives the binding
  of every name of the class body but six. The five registry names are bound to the
  objects above, a dict, a list and so on, which are not in the value universe, and
  \<open>type.__new__\<close> takes \<open>__qualname__\<close> out of the namespace; \<open>cls_attrs\<close> is not to be
  read at these six names.
\<close>

record model_class =
  cls_name :: string
  cls_attrs :: "(string \<times> pyval) list"
  cls_mappings :: "(string \<times> MongoField) list"
  cls_table :: attr
  cls_pk :: "string option"
  cls_fields :: "string list"
  cls_modified :: nat

datatype pyclass = RootClass string "(string \<times> attr) list" | ModelClass model_class

definition ModelMetaclass_new ::
  "heap \<Rightarrow> string \<Rightarrow> (string \<times> attr) list \<Rightarrow> pyexc + (pyclass \<times> heap)" where
  "ModelMetaclass_new h name attrs =
     (if name = ''Model'' then Inr (RootClass name attrs, h)
      else
        let table_name =
              (case map_of attrs ''__table__'' of
                 Some a \<Rightarrow> if attr_truthy a then a else Plain (PStr (lower name))
               | None \<Rightarrow> Plain (PStr (lower name)))
        in case IdField_init of
             Inl e \<Rightarrow> Inl e
           | Inr idf \<Rightarrow>
               (case scan (dict_set ''_id'' (FieldObj idf) attrs) scan_init of
                  Inl e \<Rightarrow> Inl e
                | Inr st \<Rightarrow>
                    if \<not> name_truthy (st_pk st)
                    then Inl (Exc RuntimeError PrimaryKeyNotFound)
                    else (case new_list h of
                            (r, h') \<Rightarrow>
                              Inr (ModelClass
                                     \<lparr> cls_name = name, cls_attrs = st_attrs st,
                                       cls_mappings = st_mappings st, cls_table = table_name,
                                       cls_pk = st_pk st, cls_fields = st_fields st,
                                       cls_modified = r \<rparr>, h'))))"

text \<open>The primary-key candidates of a class body: its entries that are key fields.\<close>

fun is_pk_entry :: "string \<times> attr \<Rightarrow> bool" where
  "is_pk_entry (k, FieldObj v) = pk v"
| "is_pk_entry (k, Plain v) = False"

definition pk_candidates :: "(string \<times> attr) list \<Rightarrow> (string \<times> attr) list" where
  "pk_candidates items = filter is_pk_entry items"


section \<open>Document instances (\<open>Model\<close>)\<close>

text \<open>
  An instance is its identity, its class and its own \<open>__dict__\<close>. \<open>Model\<close> defines no
  constructor, so a new instance starts with an empty \<open>__dict__\<close>.

  Scope: attribute names are looked up in the instance, then in the namespace of its
  class. Outside the model are: the lookup (\<open>getattr\<close>) of one of the five registry
  names or of \<open>__qualname__\<close>, whose class-level bindings \<open>cls_attrs\<close> does not give;
  the names that \<open>Model\<close> and \<open>object\<close> themselves define; base classes other than
  \<open>Model\<close>; and instances that bind one of the five registry names in their own
  \<open>__dict__\<close>. Validators are pure.
\<close>

record model_inst =
  inst_id :: nat
  inst_class :: model_class
  inst_dict :: "(string \<times> pyval) list"

text \<open>
  \<open>cls()\<close>: a new object at a fresh address of the store (objects and list objects
  share the address space), of class \<open>c\<close>, with nothing in its \<open>__dict__\<close>.
\<close>

definition Model_new :: "heap \<Rightarrow> model_class \<Rightarrow> model_inst \<times> heap" where
  "Model_new h c =
     (\<lparr> inst_id = next_ref h, inst_class = c, inst_dict = [] \<rparr>,
      h\<lparr> next_ref := Suc (next_ref h) \<rparr>)"

text \<open>\<open>self.__modified__\<close>: the list object of the class, read through the store.\<close>

definition dirty_attrs :: "heap \<Rightarrow> model_inst \<Rightarrow> string list" where
  "dirty_attrs h x = cells h (cls_modified (inst_class x))"

definition list_append :: "heap \<Rightarrow> nat \<Rightarrow> string \<Rightarrow> heap" where
  "list_append h r k = h\<lparr> cells := (cells h)(r := cells h r @ [k]) \<rparr>"

definition list_clear :: "heap \<Rightarrow> nat \<Rightarrow> heap" where
  "list_clear h r = h\<lparr> cells := (cells h)(r := []) \<rparr>"

definition lookup_attr :: "model_inst \<Rightarrow> string \<Rightarrow> pyval option" where
  "lookup_attr x key =
     (case map_of (inst_dict x) key of
        Some v \<Rightarrow> Some v
      | None \<Rightarrow> map_of (cls_attrs (inst_class x)) key)"

text \<open>\<open>getattr(self, key, d)\<close> and \<open>getattr(self, key)\<close>.\<close>

definition getattr_default :: "model_inst \<Rightarrow> string \<Rightarrow> pyval \<Rightarrow> pyval" where
  "getattr_default x key d = (case lookup_attr x key of Some v \<Rightarrow> v | None \<Rightarrow> d)"

definition getattr_strict :: "model_inst \<Rightarrow> string \<Rightarrow> pyexc + pyval" where
  "getattr_strict x key =
     (case lookup_attr x key of
        Some v \<Rightarrow> Inr v
      | None \<Rightarrow> Inl (Exc AttributeError (Missing key)))"

text \<open>
  Every operation returns its result, an exception or a value, together with the store
  and the instance as they are when it returns or raises.
\<close>

type_synonym 'a outcome = "(pyexc + 'a) \<times> heap \<times> model_inst"

text \<open>\<open>Model.__setattr__(self, key, value)\<close>.\<close>

definition Model_setattr :: "heap \<Rightarrow> model_inst \<Rightarrow> string \<Rightarrow> pyval \<Rightarrow> unit outcome" where
  "Model_setattr h x key v =
     (case map_of (cls_mappings (inst_class x)) key of
        Some f \<Rightarrow>
          (case validate f v of
             Inl e \<Rightarrow> (Inl e, h, x)
           | Inr _ \<Rightarrow>
               (Inr (), list_append h (cls_modified (inst_class x)) key,
                x\<lparr> inst_dict := dict_set key v (inst_dict x) \<rparr>))
      | None \<Rightarrow> (Inr (), h, x\<lparr> inst_dict := dict_set key v (inst_dict x) \<rparr>))"

text \<open>Calling a default: \<open>field.default()\<close>.\<close>

fun call0 :: "pyval \<Rightarrow> pyexc + pyval" where
  "call0 (PCallable r) = Inr r"
| "call0 _ = Inl (Exc TypeError NotCallable)"

text \<open>\<open>Model.get_value_or_default(self, key)\<close>.\<close>

definition get_value_or_default :: "heap \<Rightarrow> model_inst \<Rightarrow> string \<Rightarrow> pyval outcome" where
  "get_value_or_default h x key =
     (let v = getattr_default x key PNone in
      if v = PNone then
        (case map_of (cls_mappings (inst_class x)) key of
           None \<Rightarrow> (Inl (Exc KeyError (Missing key)), h, x)
         | Some f \<Rightarrow>
             if \<not> truthy (default_val f) then
               (case (if callable (default_val f) then call0 (default_val f)
                      else Inr (default_val f)) of
                  Inl e \<Rightarrow> (Inl e, h, x)
                | Inr v' \<Rightarrow>
                    (case Model_setattr h x key v' of
                       (Inl e, h', x') \<Rightarrow> (Inl e, h', x')
                     | (Inr _, h', x') \<Rightarrow> (Inr v', h', x')))
             else (Inr v, h, x))
      else (Inr v, h, x))"

text \<open>\<open>Model.validate_fields(self)\<close>: the loop over \<open>self.__mappings__.items()\<close>.\<close>

fun validate_items :: "model_inst \<Rightarrow> (string \<times> MongoField) list \<Rightarrow> pyexc + unit" where
  "validate_items x [] = Inr ()"
| "validate_items x ((name, f) # rest) =
     (case validate f (getattr_default x name PNone) of
        Inl e \<Rightarrow> Inl e
      | Inr _ \<Rightarrow> validate_items x rest)"

definition validate_fields :: "model_inst \<Rightarrow> pyexc + unit" where
  "validate_fields x = validate_items x (cls_mappings (inst_class x))"

text \<open>
  \<open>Model.__str__(self)\<close>, up to the final \<open>str(diction)\<close>: the dict that is rendered.
\<close>

definition dict_pop :: "'k \<Rightarrow> ('k \<times> 'v) list \<Rightarrow> ('k \<times> 'v) list" where
  "dict_pop k d = filter (\<lambda>p. fst p \<noteq> k) d"

definition Model_str :: "model_inst \<Rightarrow> pyexc + (string \<times> pyval) list" where
  "Model_str x =
     (let diction =
            fold (\<lambda>k d. dict_set k (getattr_default x k PNone) d)
              (map fst (cls_mappings (inst_class x))) []
      in case map_of diction ''_id'' of
           None \<Rightarrow> Inl (Exc KeyError (Missing ''_id''))
         | Some i \<Rightarrow> if \<not> truthy i then Inr (dict_pop ''_id'' diction) else Inr diction)"

text \<open>
  The comprehension \<open>{k: getattr(self, k) for k in self.__modified__}\<close> of \<open>save\<close>.
\<close>

fun query_items ::
  "model_inst \<Rightarrow> string list \<Rightarrow> (string \<times> pyval) list \<Rightarrow> pyexc + (string \<times> pyval) list" where
  "query_items x [] acc = Inr acc"
| "query_items x (k # ks) acc =
     (case getattr_strict x k of
        Inl e \<Rightarrow> Inl e
      | Inr v \<Rightarrow> query_items x ks (dict_set k v acc))"

text \<open>
  \<open>Model.save(self)\<close>. The persistence calls of the source are log lines; what each
  line reports is the value returned here: the identity and the \<open>$set\<close> payload of an
  update, the table and the rendered document of an insert.
\<close>

datatype save_log =
    UpdateRecord pyval "(string \<times> pyval) list"
  | InsertRecord attr "(string \<times> pyval) list"

definition save :: "heap \<Rightarrow> model_inst \<Rightarrow> save_log outcome" where
  "save h x =
     (case validate_fields x of
        Inl e \<Rightarrow> (Inl e, h, x)
      | Inr _ \<Rightarrow>
          if truthy (getattr_default x ''_id'' PNone) then
            (case query_items x (dirty_attrs h x) [] of
               Inl e \<Rightarrow> (Inl e, h, x)
             | Inr query \<Rightarrow>
                 (case getattr_strict x ''_id'' of
                    Inl e \<Rightarrow> (Inl e, h, x)
                  | Inr i \<Rightarrow>
                      (Inr (UpdateRecord i query),
                       list_clear h (cls_modified (inst_class x)), x)))
          else
            (case Model_str x of
               Inl e \<Rightarrow> (Inl e, h, x)
             | Inr doc \<Rightarrow>
                 (Inr (InsertRecord (cls_table (inst_class x)) doc),
                  list_clear h (cls_modified (inst_class x)), x)))"


text \<open>
  The state that registration and the operations of \<open>Model\<close> establish and keep: the
  identity field is mapped, every mapped name is bound in the class namespace (to the
  default of its field), and the list \<open>__modified__\<close> holds mapped names only.
\<close>

definition well_formed :: "heap \<Rightarrow> model_inst \<Rightarrow> bool" where
  "well_formed h x \<longleftrightarrow>
     ''_id'' \<in> fst ` set (cls_mappings (inst_class x)) \<and>
     fst ` set (cls_mappings (inst_class x)) \<subseteq> fst ` set (cls_attrs (inst_class x)) \<and>
     set (dirty_attrs h x) \<subseteq> fst ` set (cls_mappings (inst_class x))"

section \<open>Example schemas\<close>

text \<open>
  The schema of \<open>examples/helloworld.py\<close>:
  \<open>name = StringField('user_name', type_check=True)\<close> and
  \<open>test_field = CommonField('test', default=-9999)\<close> in a class \<open>User\<close>.
\<close>

definition name_field :: MongoField where
  "name_field =
     \<lparr> field_name = ''user_name'', field_type = T_str, default_val = PNone, pk = False,
       required = False, unique = False, type_check = True, validation = None \<rparr>"

definition test_field :: MongoField where
  "test_field =
     \<lparr> field_name = ''test'', field_type = T_type, default_val = PInt (- 9999), pk = False,
       required = False, unique = False, type_check = False, validation = None \<rparr>"

definition User_body :: "(string \<times> attr) list" where
  "User_body =
     [(''__module__'', Plain (PStr ''__main__'')), (''__qualname__'', Plain (PStr ''User'')),
      (''name'', FieldObj name_field), (''test_field'', FieldObj test_field)]"

text \<open>The class that registering \<open>User\<close> on the empty store yields, and the store after.\<close>

definition User :: model_class where
  "User =
     \<lparr> cls_name = ''User'',
       cls_attrs =
         [(''__module__'', PStr ''__main__''), (''__qualname__'', PStr ''User''),
          (''name'', PNone), (''test_field'', PInt (- 9999)), (''_id'', PNone)],
       cls_mappings = [(''name'', name_field), (''test_field'', test_field), (''_id'', IdField)],
       cls_table = Plain (PStr ''user''),
       cls_pk = Some ''_id'',
       cls_fields = [''__module__'', ''__qualname__''],
       cls_modified = 0 \<rparr>"

definition heap1 :: heap where
  "heap1 = snd (new_list empty_heap)"

text \<open>Two instances of \<open>User\<close>, constructed one after the other: \<open>a = User(); b = User()\<close>.\<close>

definition user_a :: model_inst where
  "user_a = \<lparr> inst_id = 1, inst_class = User, inst_dict = [] \<rparr>"

definition user_b :: model_inst where
  "user_b = \<lparr> inst_id = 2, inst_class = User, inst_dict = [] \<rparr>"

definition heap2 :: heap where
  "heap2 = snd (Model_new (snd (Model_new heap1 User)) User)"

text \<open>\<open>a\<close> after \<open>a.name = 'bob'\<close>, and after \<open>a._id = ObjectId('5ff6')\<close> as well.\<close>

definition user_a_named :: model_inst where
  "user_a_named = user_a\<lparr> inst_dict := [(''name'', PStr ''bob'')] \<rparr>"

definition user_a_stored :: model_inst where
  "user_a_stored =
     user_a\<lparr> inst_dict := [(''name'', PStr ''bob''), (''_id'', PObjectId ''5ff6'')] \<rparr>"

text \<open>
  Key fields written with the base constructor:
  \<open>MongoField('uid', str, None, True, False, False, False, None)\<close>, and the same under
  the external name \<open>_id\<close>.
\<close>

definition uid_field :: MongoField where
  "uid_field =
     \<lparr> field_name = ''uid'', field_type = T_str, default_val = PNone, pk = True,
       required = False, unique = False, type_check = False, validation = None \<rparr>"

definition own_id_field :: MongoField where
  "own_id_field =
     \<lparr> field_name = ''_id'', field_type = T_str, default_val = PNone, pk = True,
       required = False, unique = False, type_check = False, validation = None \<rparr>"

text \<open>A class body that declares its key as \<open>uid\<close>, one that declares it as \<open>_id\<close>.\<close>

definition Keyed_body :: "(string \<times> attr) list" where
  "Keyed_body =
     [(''__module__'', Plain (PStr ''__main__'')), (''__qualname__'', Plain (PStr ''Keyed'')),
      (''uid'', FieldObj uid_field)]"

definition OwnId_body :: "(string \<times> attr) list" where
  "OwnId_body =
     [(''__module__'', Plain (PStr ''__main__'')), (''__qualname__'', Plain (PStr ''OwnId'')),
      (''_id'', FieldObj own_id_field)]"

text \<open>
  A namespace handed to the metaclass directly, with a key field under the empty name:
  \<open>ModelMetaclass('Odd', (Model,), {'': MongoField('uid', str, None, True, ...)})\<close>.
\<close>

definition Odd_body :: "(string \<times> attr) list" where
  "Odd_body = [([], FieldObj uid_field)]"

text \<open>
  \<open>IntegerField('n', type_check=True, validation=reject)\<close>, where \<open>reject(v)\<close> raises
  \<open>TypeError(f"value {v!r} is not a {int}")\<close> on every value \<open>v\<close>.
\<close>

definition reject :: "pyval \<Rightarrow> pyexc option" where
  "reject v = Some (Exc TypeError (ValueNotInstance v T_int))"

definition strict_field :: MongoField where
  "strict_field =
     \<lparr> field_name = ''n'', field_type = T_int, default_val = PNone, pk = False,
       required = False, unique = False, type_check = True, validation = Some reject \<rparr>"

text \<open>
  A class \<open>Person\<close> with \<open>age = IntegerField('age', default=p)\<close>, \<open>p\<close> a zero-argument
  producer that returns 18, and \<open>rank = IntegerField('rank', default=7)\<close>; a new
  instance of it, and that instance after \<open>x.rank = None\<close>.
\<close>

definition age_field :: MongoField where
  "age_field =
     \<lparr> field_name = ''age'', field_type = T_int, default_val = PCallable (PInt 18), pk = False,
       required = False, unique = False, type_check = False, validation = None \<rparr>"

definition rank_field :: MongoField where
  "rank_field =
     \<lparr> field_name = ''rank'', field_type = T_int, default_val = PInt 7, pk = False,
       required = False, unique = False, type_check = False, validation = None \<rparr>"

definition Person_body :: "(string \<times> attr) list" where
  "Person_body =
     [(''__module__'', Plain (PStr ''__main__'')), (''__qualname__'', Plain (PStr ''Person'')),
      (''age'', FieldObj age_field), (''rank'', FieldObj rank_field)]"

definition Person :: model_class where
  "Person =
     \<lparr> cls_name = ''Person'',
       cls_attrs =
         [(''__module__'', PStr ''__main__''), (''__qualname__'', PStr ''Person''),
          (''age'', PCallable (PInt 18)), (''rank'', PInt 7), (''_id'', PNone)],
       cls_mappings = [(''age'', age_field), (''rank'', rank_field), (''_id'', IdField)],
       cls_table = Plain (PStr ''person''),
       cls_pk = Some ''_id'',
       cls_fields = [''__module__'', ''__qualname__''],
       cls_modified = 0 \<rparr>"

definition person_x :: model_inst where
  "person_x = \<lparr> inst_id = 1, inst_class = Person, inst_dict = [] \<rparr>"

definition person_y :: model_inst where
  "person_y = \<lparr> inst_id = 1, inst_class = Person, inst_dict = [(''rank'', PNone)] \<rparr>"


text \<open>
  The store after \<open>a.name = 'bob'\<close>, and after \<open>a._id = ObjectId('5ff6')\<close> as well.
\<close>

definition heap3 :: heap where
  "heap3 = list_append heap2 0 ''name''"

definition heap4 :: heap where
  "heap4 = list_append heap3 0 ''_id''"

text \<open>
  A class \<open>Account\<close> with three type-checked fields,
  \<open>owner = StringField('owner', type_check=True)\<close>,
  \<open>balance = IntegerField('balance', type_check=True)\<close> and
  \<open>code = StringField('code', type_check=True)\<close>; a new instance of it, and that instance
  and the store after \<open>x.owner = 'ann'\<close>.
\<close>

definition owner_field :: MongoField where
  "owner_field =
     \<lparr> field_name = ''owner'', field_type = T_str, default_val = PNone, pk = False,
       required = False, unique = False, type_check = True, validation = None \<rparr>"

definition balance_field :: MongoField where
  "balance_field =
     \<lparr> field_name = ''balance'', field_type = T_int, default_val = PNone, pk = False,
       required = False, unique = False, type_check = True, validation = None \<rparr>"

definition code_field :: MongoField where
  "code_field =
     \<lparr> field_name = ''code'', field_type = T_str, default_val = PNone, pk = False,
       required = False, unique = False, type_check = True, validation = None \<rparr>"

definition Account_body :: "(string \<times> attr) list" where
  "Account_body =
     [(''__module__'', Plain (PStr ''__main__'')), (''__qualname__'', Plain (PStr ''Account'')),
      (''owner'', FieldObj owner_field), (''balance'', FieldObj balance_field),
      (''code'', FieldObj code_field)]"

definition Account :: model_class where
  "Account =
     \<lparr> cls_name = ''Account'',
       cls_attrs =
         [(''__module__'', PStr ''__main__''), (''__qualname__'', PStr ''Account''),
          (''owner'', PNone), (''balance'', PNone), (''code'', PNone), (''_id'', PNone)],
       cls_mappings =
         [(''owner'', owner_field), (''balance'', balance_field), (''code'', code_field),
          (''_id'', IdField)],
       cls_table = Plain (PStr ''account''),
       cls_pk = Some ''_id'',
       cls_fields = [''__module__'', ''__qualname__''],
       cls_modified = 0 \<rparr>"

definition account_new :: model_inst where
  "account_new = \<lparr> inst_id = 1, inst_class = Account, inst_dict = [] \<rparr>"

definition account_x :: model_inst where
  "account_x = account_new\<lparr> inst_dict := [(''owner'', PStr ''ann'')] \<rparr>"

definition heap_acct :: heap where
  "heap_acct = list_append (snd (Model_new heap1 Account)) 0 ''owner''"

section \<open>Properties of registration\<close>

subsection \<open>The loop over the class body\<close>

lemma IdField_init_eq: "IdField_init = Inr IdField"
  by (simp add: IdField_init_def MongoField_init_def IdField_def)

lemma scan_pk_stays:
  "name_truthy (st_pk st) \<Longrightarrow> scan items st = Inr st' \<Longrightarrow> st_pk st' = st_pk st"
proof (induction items st rule: scan.induct)
  case (1 st) then show ?case by simp
next
  case (2 k v rest st) then show ?case by (auto split: if_splits)
next
  case (3 k v rest st) then show ?case by simp
qed

lemma scan_pk_found:
  "(k, FieldObj f) \<in> set items \<Longrightarrow> pk f \<Longrightarrow> k \<noteq> [] \<Longrightarrow> scan items st = Inr st'
   \<Longrightarrow> name_truthy (st_pk st')"
proof (induction items st rule: scan.induct)
  case (1 st) then show ?case by simp
next
  case (2 k' v rest st)
  show ?case
  proof (cases "(k, FieldObj f) = (k', FieldObj v)")
    case True
    with 2 have nt: "\<not> name_truthy (st_pk st)" and
      sc: "scan rest (st\<lparr> st_mappings := dict_set k' v (st_mappings st), st_pk := Some k',
                     st_attrs := st_attrs st @ [(k', default_val v)] \<rparr>) = Inr st'"
      by (auto split: if_splits)
    from True 2 have "k' \<noteq> []" by simp
    with scan_pk_stays[OF _ sc] have "st_pk st' = Some k'" by simp
    with \<open>k' \<noteq> []\<close> show ?thesis by simp
  next
    case False
    with 2 show ?thesis by (auto split: if_splits)
  qed
next
  case (3 k' v rest st) then show ?case by auto
qed

lemma scan_error_is_duplicate:
  "scan items st = Inl e \<Longrightarrow> \<exists>k. e = Exc RuntimeError (DuplicatePrimaryKey k)"
  by (induction items st rule: scan.induct) (auto split: if_splits)

lemma dict_set_mem: "(k, v) \<in> set (dict_set k v d)"
  by (induction d) auto

lemma dict_set_other: "(k', v') \<in> set d \<Longrightarrow> k' \<noteq> k \<Longrightarrow> (k', v') \<in> set (dict_set k v d)"
  by (induction d) auto

lemma registration_errors:
  "ModelMetaclass_new h name attrs = Inl e \<Longrightarrow> \<exists>k. e = Exc RuntimeError (DuplicatePrimaryKey k)"
proof -
  assume a: "ModelMetaclass_new h name attrs = Inl e"
  let ?items = "dict_set ''_id'' (FieldObj IdField) attrs"
  have ne: "name \<noteq> ''Model''" using a by (auto simp: ModelMetaclass_new_def)
  show ?thesis
  proof (cases "scan ?items scan_init")
    case (Inl e')
    with a ne have "e = e'"
      by (simp add: ModelMetaclass_new_def IdField_init_eq Let_def)
    with Inl show ?thesis by (auto dest: scan_error_is_duplicate)
  next
    case (Inr st)
    have "(''_id'', FieldObj IdField) \<in> set ?items" by (rule dict_set_mem)
    moreover have "pk IdField" by (simp add: IdField_def)
    ultimately have "name_truthy (st_pk st)"
      using Inr scan_pk_found[of "''_id''" IdField ?items scan_init st] by simp
    with a ne Inr show ?thesis
      by (simp add: ModelMetaclass_new_def IdField_init_eq Let_def split: prod.splits)
  qed
qed


lemma map_of_dict_set: "map_of (dict_set k v d) = (map_of d)(k \<mapsto> v)"
  by (induction d) (auto simp: fun_eq_iff)

lemma keys_dict_set: "fst ` set (dict_set k v d) = insert k (fst ` set d)"
  by (induction d) auto

lemma distinct_dict_set: "distinct (map fst d) \<Longrightarrow> distinct (map fst (dict_set k v d))"
proof (induction d)
  case Nil then show ?case by simp
next
  case (Cons p ps)
  have "fst ` set (dict_set k v ps) = insert k (fst ` set ps)" by (rule keys_dict_set)
  with Cons show ?case by auto
qed

lemma scan_mappings_frame:
  "k \<notin> fst ` set items \<Longrightarrow> scan items st = Inr st'
   \<Longrightarrow> map_of (st_mappings st') k = map_of (st_mappings st) k"
  by (induction items st rule: scan.induct) (auto split: if_splits simp: map_of_dict_set)

lemma scan_mappings_entry:
  "distinct (map fst items) \<Longrightarrow> (k, FieldObj f) \<in> set items \<Longrightarrow> scan items st = Inr st'
   \<Longrightarrow> map_of (st_mappings st') k = Some f"
proof (induction items st rule: scan.induct)
  case (1 st) then show ?case by simp
next
  case (2 k' v rest st)
  show ?case
  proof (cases "k = k'")
    case True
    with 2 have fv: "f = v" and notin: "k \<notin> fst ` set rest" by (auto simp: image_iff)
    from 2 obtain st1 where sc: "scan rest st1 = Inr st'" and
      m1: "st_mappings st1 = dict_set k' v (st_mappings st)"
      by (auto split: if_splits)
    from scan_mappings_frame[OF notin sc] m1 True fv show ?thesis
      by (simp add: map_of_dict_set)
  next
    case False
    with 2 show ?thesis by (auto split: if_splits)
  qed
next
  case (3 k' v rest st) then show ?case by auto
qed

lemma scan_succeeds_iff:
  "[] \<notin> fst ` set items \<Longrightarrow> st_pk st \<noteq> Some [] \<Longrightarrow>
   (\<exists>st'. scan items st = Inr st') \<longleftrightarrow>
   length (pk_candidates items) + (if name_truthy (st_pk st) then 1 else 0) \<le> 1"
proof (induction items st rule: scan.induct)
  case (1 st) then show ?case by (simp add: pk_candidates_def)
next
  case (2 k v rest st)
  then show ?case by (auto simp: pk_candidates_def)
next
  case (3 k v rest st) then show ?case by (auto simp: pk_candidates_def)
qed

lemma registration_success_iff_scan:
  "name \<noteq> ''Model'' \<Longrightarrow>
   (\<exists>c h'. ModelMetaclass_new h name attrs = Inr (ModelClass c, h')) \<longleftrightarrow>
   (\<exists>st. scan (dict_set ''_id'' (FieldObj IdField) attrs) scan_init = Inr st)"
proof -
  assume ne: "name \<noteq> ''Model''"
  let ?items = "dict_set ''_id'' (FieldObj IdField) attrs"
  show ?thesis
  proof (cases "scan ?items scan_init")
    case (Inl e)
    with ne show ?thesis by (simp add: ModelMetaclass_new_def IdField_init_eq Let_def)
  next
    case (Inr st)
    have "(''_id'', FieldObj IdField) \<in> set ?items" by (rule dict_set_mem)
    moreover have "pk IdField" by (simp add: IdField_def)
    ultimately have "name_truthy (st_pk st)"
      using Inr scan_pk_found[of "''_id''" IdField ?items scan_init st] by simp
    with ne Inr show ?thesis
      by (simp add: ModelMetaclass_new_def IdField_init_eq Let_def split: prod.splits)
  qed
qed

lemma two_candidates:
  assumes "(k, FieldObj f) \<in> set attrs" "pk f" "k \<noteq> ''_id''"
  shows "2 \<le> length (pk_candidates (dict_set ''_id'' (FieldObj IdField) attrs))"
proof -
  let ?items = "dict_set ''_id'' (FieldObj IdField) attrs"
  let ?c = "pk_candidates ?items"
  have a: "(''_id'', FieldObj IdField) \<in> set ?c"
    by (simp add: pk_candidates_def dict_set_mem IdField_def)
  have b: "(k, FieldObj f) \<in> set ?c"
    using assms by (simp add: pk_candidates_def dict_set_other)
  have "{(''_id'', FieldObj IdField), (k, FieldObj f)} \<subseteq> set ?c" using a b by simp
  then have "card {(''_id'', FieldObj IdField), (k, FieldObj f)} \<le> card (set ?c)"
    by (intro card_mono) auto
  moreover have "card {(''_id'', FieldObj IdField), (k, FieldObj f)} = 2"
    using assms(3) by auto
  moreover have "card (set ?c) \<le> length ?c" by (rule card_length)
  ultimately show ?thesis by linarith
qed


subsection \<open>The example schemas, registered\<close>

lemma lower_User: "lower ''User'' = ''user''"
  by code_simp

lemma lower_Person: "lower ''Person'' = ''person''"
  by code_simp

lemma heap1_eq: "heap1 = \<lparr> cells = (\<lambda>_. []), next_ref = 1 \<rparr>"
  by (simp add: heap1_def new_list_def empty_heap_def fun_eq_iff)

lemma register_User:
  "ModelMetaclass_new empty_heap ''User'' User_body = Inr (ModelClass User, heap1)"
  by (simp add: ModelMetaclass_new_def User_body_def User_def IdField_init_eq lower_User
      scan_init_def name_field_def test_field_def IdField_def heap1_def new_list_def
      empty_heap_def)

lemma register_Person:
  "ModelMetaclass_new empty_heap ''Person'' Person_body = Inr (ModelClass Person, heap1)"
  by (simp add: ModelMetaclass_new_def Person_body_def Person_def IdField_init_eq lower_Person
      scan_init_def age_field_def rank_field_def IdField_def heap1_def new_list_def
      empty_heap_def)

lemma register_Keyed:
  "ModelMetaclass_new empty_heap ''Keyed'' Keyed_body =
     Inl (Exc RuntimeError (DuplicatePrimaryKey ''_id''))"
  by (simp add: ModelMetaclass_new_def Keyed_body_def IdField_init_eq scan_init_def
      uid_field_def IdField_def)

text \<open>
  The truth-value test \<open>if pk:\<close> does not see a key stored under the empty name: the
  namespace \<open>Odd_body\<close> registers with two key fields in its field map.
\<close>

lemma register_Odd:
  "\<not> isl (ModelMetaclass_new empty_heap ''Odd'' Odd_body) \<and>
   length (pk_candidates (dict_set ''_id'' (FieldObj IdField) Odd_body)) = 2"
  by (simp add: ModelMetaclass_new_def Odd_body_def IdField_init_eq pk_candidates_def
      scan_init_def uid_field_def IdField_def new_list_def Let_def)

subsection \<open>Claims about registration\<close>

text \<open>
  C1 (as stated, refuted). The claim says that declaring any explicit primary-key field
  in the class body makes registration fail. A key field declared under the attribute
  name \<open>_id\<close> is overwritten by the injected identity field before the scan, and the
  class registers.
\<close>

theorem own_id_key_accepted:
  "(''_id'', FieldObj own_id_field) \<in> set OwnId_body \<and> pk own_id_field \<and>
   \<not> isl (ModelMetaclass_new empty_heap ''OwnId'' OwnId_body)"
  by (simp add: ModelMetaclass_new_def OwnId_body_def IdField_init_eq scan_init_def
      own_id_field_def IdField_def new_list_def Let_def)

text \<open>
  C1 (amended). For every model type other than the root base model type whose class
  body has no attribute under the empty name, registration succeeds if and only if
  exactly one entry of the class body is a primary-key field after the identity field
  has been injected under \<open>_id\<close>; and declaring an explicit primary-key field under any
  attribute name other than \<open>_id\<close> makes registration fail with the duplicate-primary-key
  error.
\<close>

theorem registration_iff_single_key:
  assumes "name \<noteq> ''Model''" and "[] \<notin> fst ` set attrs"
  shows "((\<exists>c h'. ModelMetaclass_new h name attrs = Inr (ModelClass c, h')) \<longleftrightarrow>
          length (pk_candidates (dict_set ''_id'' (FieldObj IdField) attrs)) = 1) \<and>
         (\<forall>k f. (k, FieldObj f) \<in> set attrs \<and> pk f \<and> k \<noteq> ''_id'' \<longrightarrow>
            (\<exists>k'. ModelMetaclass_new h name attrs =
                     Inl (Exc RuntimeError (DuplicatePrimaryKey k'))))"
proof -
  let ?items = "dict_set ''_id'' (FieldObj IdField) attrs"
  have keys: "[] \<notin> fst ` set ?items" using assms(2) by (simp add: keys_dict_set)
  have one: "1 \<le> length (pk_candidates ?items)"
  proof -
    have "(''_id'', FieldObj IdField) \<in> set (pk_candidates ?items)"
      by (simp add: pk_candidates_def dict_set_mem IdField_def)
    then have "pk_candidates ?items \<noteq> []" by auto
    then show ?thesis by (cases "pk_candidates ?items") auto
  qed
  have iff: "(\<exists>c h'. ModelMetaclass_new h name attrs = Inr (ModelClass c, h')) \<longleftrightarrow>
             length (pk_candidates ?items) = 1"
    using registration_success_iff_scan[OF assms(1), of h attrs]
      scan_succeeds_iff[OF keys, of scan_init] one
    by (simp add: scan_init_def)
  have dup: "\<exists>k'. ModelMetaclass_new h name attrs = Inl (Exc RuntimeError (DuplicatePrimaryKey k'))"
    if "(k, FieldObj f) \<in> set attrs" "pk f" "k \<noteq> ''_id''" for k f
  proof -
    from two_candidates[OF that] iff
    have no: "\<not> (\<exists>c h'. ModelMetaclass_new h name attrs = Inr (ModelClass c, h'))" by simp
    show ?thesis
    proof (cases "ModelMetaclass_new h name attrs")
      case (Inl e)
      with registration_errors[OF Inl] show ?thesis by auto
    next
      case (Inr r)
      with assms(1) no show ?thesis
        by (auto simp: ModelMetaclass_new_def IdField_init_eq Let_def
                 split: sum.splits if_splits prod.splits)
    qed
  qed
  from iff dup show ?thesis by blast
qed

theorem registration_iff_single_key_witness:
  "''User'' \<noteq> ''Model'' \<and> [] \<notin> fst ` set User_body \<and>
   length (pk_candidates (dict_set ''_id'' (FieldObj IdField) User_body)) = 1 \<and>
   (\<exists>c h'. ModelMetaclass_new empty_heap ''User'' User_body = Inr (ModelClass c, h')) \<and>
   ''Keyed'' \<noteq> ''Model'' \<and> [] \<notin> fst ` set Keyed_body \<and>
   (''uid'', FieldObj uid_field) \<in> set Keyed_body \<and> pk uid_field \<and> ''uid'' \<noteq> ''_id'' \<and>
   (\<exists>k'. ModelMetaclass_new empty_heap ''Keyed'' Keyed_body =
            Inl (Exc RuntimeError (DuplicatePrimaryKey k')))"
proof -
  have u1: "''User'' \<noteq> ''Model''" by simp
  have u2: "[] \<notin> fst ` set User_body" by (simp add: User_body_def)
  have u3: "length (pk_candidates (dict_set ''_id'' (FieldObj IdField) User_body)) = 1"
    by (simp add: User_body_def pk_candidates_def name_field_def test_field_def IdField_def)
  have k1: "''Keyed'' \<noteq> ''Model''" by simp
  have k2: "[] \<notin> fst ` set Keyed_body" by (simp add: Keyed_body_def)
  have k3: "(''uid'', FieldObj uid_field) \<in> set Keyed_body \<and> pk uid_field \<and> ''uid'' \<noteq> ''_id''"
    by (simp add: Keyed_body_def uid_field_def)
  from registration_iff_single_key[OF u1 u2, of empty_heap] u3
  have u4: "\<exists>c h'. ModelMetaclass_new empty_heap ''User'' User_body = Inr (ModelClass c, h')"
    by simp
  from registration_iff_single_key[OF k1 k2, of empty_heap] k3
  have k4: "\<exists>k'. ModelMetaclass_new empty_heap ''Keyed'' Keyed_body =
                   Inl (Exc RuntimeError (DuplicatePrimaryKey k'))"
    by blast
  from u1 u2 u3 u4 k1 k2 k3 k4 show ?thesis by blast
qed

text \<open>
  C2. For every model type other than the root base model type, after registration the
  field map has an entry under the attribute name \<open>_id\<close>, and it is the descriptor that
  \<open>_IdField()\<close> constructs: external name \<open>_id\<close>, the object-identifier type, primary key,
  and \<open>required\<close>, \<open>unique\<close>, \<open>type_check\<close> and the validator all off, whatever the class
  body declared. The class body is a dict, so its keys are distinct.
\<close>

theorem identity_field_registered:
  assumes "distinct (map fst attrs)"
    and "ModelMetaclass_new h name attrs = Inr (ModelClass c, h')"
  shows "\<exists>f. IdField_init = Inr f \<and> map_of (cls_mappings c) ''_id'' = Some f \<and>
             field_name f = ''_id'' \<and> field_type f = T_ObjectId \<and> pk f \<and>
             \<not> required f \<and> \<not> unique f \<and> \<not> type_check f \<and> validation f = None"
proof -
  let ?items = "dict_set ''_id'' (FieldObj IdField) attrs"
  from assms(2) obtain st where sc: "scan ?items scan_init = Inr st"
    and c: "cls_mappings c = st_mappings st"
    by (auto simp: ModelMetaclass_new_def IdField_init_eq Let_def
             split: sum.splits if_splits prod.splits)
  have "map_of (st_mappings st) ''_id'' = Some IdField"
    using scan_mappings_entry[OF distinct_dict_set[OF assms(1)] dict_set_mem sc] .
  with c show ?thesis
    by (intro exI[of _ IdField]) (simp add: IdField_init_eq, simp add: IdField_def)
qed

theorem identity_field_registered_witness:
  "distinct (map fst User_body) \<and>
   ModelMetaclass_new empty_heap ''User'' User_body = Inr (ModelClass User, heap1) \<and>
   (\<exists>f. IdField_init = Inr f \<and> map_of (cls_mappings User) ''_id'' = Some f \<and>
        field_name f = ''_id'' \<and> field_type f = T_ObjectId \<and> pk f \<and>
        \<not> required f \<and> \<not> unique f \<and> \<not> type_check f \<and> validation f = None)"
proof -
  have d: "distinct (map fst User_body)" by (simp add: User_body_def)
  from identity_field_registered[OF d register_User] d register_User
  show ?thesis by blast
qed

text \<open>
  C10. Registration never fails with the error \<open>Primary key not found.\<close>: the identity
  field is in the class body before the scan, so the scan either raises the
  duplicate-primary-key error or leaves \<open>pk\<close> set. Every error that registration returns
  is the duplicate-primary-key error.
\<close>

theorem primary_key_not_found_unreachable:
  "ModelMetaclass_new h name attrs \<noteq> Inl (Exc RuntimeError PrimaryKeyNotFound) \<and>
   (\<forall>e. ModelMetaclass_new h name attrs = Inl e \<longrightarrow>
        (\<exists>k. e = Exc RuntimeError (DuplicatePrimaryKey k)))"
  using registration_errors[of h name attrs] by auto

theorem primary_key_not_found_unreachable_witness:
  "ModelMetaclass_new empty_heap ''Keyed'' Keyed_body =
     Inl (Exc RuntimeError (DuplicatePrimaryKey ''_id'')) \<and>
   ModelMetaclass_new empty_heap ''Keyed'' Keyed_body \<noteq>
     Inl (Exc RuntimeError PrimaryKeyNotFound) \<and>
   (\<exists>k. Exc RuntimeError (DuplicatePrimaryKey ''_id'') = Exc RuntimeError (DuplicatePrimaryKey k))"
  using primary_key_not_found_unreachable[of empty_heap "''Keyed''" Keyed_body] register_Keyed
  by simp

section \<open>Properties of field validation\<close>

text \<open>
  C9 (as stated, refuted). The claim says that, with \<open>type_check\<close> on, \<open>validate\<close> fails
  with the type error only if the value is not an instance of the declared type, and that
  a validator's failure does not surface as that error. \<open>validate\<close> hands on whatever
  the validator raises: for the field \<open>strict_field\<close> the value 5 is an \<open>int\<close>, and
  \<open>validate\<close> still fails with a \<open>TypeError\<close>, the one its validator raises.
\<close>

theorem validator_type_error_propagates:
  "type_check strict_field \<and> isinstance (PInt 5) (field_type strict_field) \<and>
   validate strict_field (PInt 5) = Inl (Exc TypeError (ValueNotInstance (PInt 5) T_int))"
  by (simp add: strict_field_def validate_def reject_def)

text \<open>
  C9 (amended). For every field descriptor with \<open>type_check\<close> on: when the value is not
  an instance of the declared type, \<open>validate\<close> fails with the \<open>TypeError\<close> of the type
  test, naming the value and the type, and the validator is not run; when the value is an
  instance, any supplied validator is run on it and its failure propagates unchanged,
  whatever its class. Hence \<open>validate\<close> fails with a \<open>TypeError\<close> if and only if the
  value is not an instance, provided the validator does not itself raise a \<open>TypeError\<close>
  on that value.
\<close>

theorem type_check_validate:
  assumes "type_check f"
  shows "(\<not> isinstance v (field_type f) \<longrightarrow>
            validate f v = Inl (Exc TypeError (ValueNotInstance v (field_type f)))) \<and>
         (isinstance v (field_type f) \<longrightarrow>
            validate f v =
              (case validation f of
                 None \<Rightarrow> Inr ()
               | Some check \<Rightarrow> (case check v of Some e \<Rightarrow> Inl e | None \<Rightarrow> Inr ()))) \<and>
         ((\<forall>check e. validation f = Some check \<and> check v = Some e \<longrightarrow>
              exc_class_of e \<noteq> TypeError) \<longrightarrow>
            ((\<exists>m. validate f v = Inl (Exc TypeError m)) \<longleftrightarrow> \<not> isinstance v (field_type f)))"
  using assms
  by (auto simp: validate_def split: option.splits)

theorem type_check_validate_witness:
  "type_check name_field \<and> \<not> isinstance (PInt 3) (field_type name_field) \<and>
   validate name_field (PInt 3) = Inl (Exc TypeError (ValueNotInstance (PInt 3) T_str)) \<and>
   isinstance (PStr ''bob'') (field_type name_field) \<and>
   validate name_field (PStr ''bob'') = Inr () \<and>
   ((\<exists>m. validate name_field (PInt 3) = Inl (Exc TypeError m)) \<longleftrightarrow>
      \<not> isinstance (PInt 3) (field_type name_field))"
proof -
  have t: "type_check name_field" by (simp add: name_field_def)
  have n: "\<not> isinstance (PInt 3) (field_type name_field)" by (simp add: name_field_def)
  have i: "isinstance (PStr ''bob'') (field_type name_field)" by (simp add: name_field_def)
  have v: "validation name_field = None" by (simp add: name_field_def)
  have ty: "field_type name_field = T_str" by (simp add: name_field_def)
  from type_check_validate[OF t, of "PInt 3"] n ty v
  have a: "validate name_field (PInt 3) = Inl (Exc TypeError (ValueNotInstance (PInt 3) T_str))"
    and c: "(\<exists>m. validate name_field (PInt 3) = Inl (Exc TypeError m)) \<longleftrightarrow>
      \<not> isinstance (PInt 3) (field_type name_field)"
    by simp_all
  from type_check_validate[OF t, of "PStr ''bob''"] i v
  have b: "validate name_field (PStr ''bob'') = Inr ()" by simp
  from t n a i b c show ?thesis by blast
qed


section \<open>Properties of document instances\<close>

subsection \<open>Dictionaries, comprehensions and the invariant\<close>

lemma falsy_not_callable: "\<not> truthy v \<Longrightarrow> \<not> callable v"
  by (cases v) auto




lemma validate_items_Inl_iff:
  "validate_items x ms = Inl e \<longleftrightarrow>
   (\<exists>i<length ms. validate (snd (ms ! i)) (getattr_default x (fst (ms ! i)) PNone) = Inl e \<and>
      (\<forall>j<i. validate (snd (ms ! j)) (getattr_default x (fst (ms ! j)) PNone) = Inr ()))"
proof (induction ms)
  case Nil then show ?case by simp
next
  case (Cons p ps)
  obtain n f where p: "p = (n, f)" by (cases p)
  show ?case
  proof (cases "validate f (getattr_default x n PNone)")
    case (Inl e')
    show ?thesis
    proof
      assume "validate_items x (p # ps) = Inl e"
      with Inl p have "e' = e" by simp
      with Inl p show "\<exists>i<length (p # ps). validate (snd ((p # ps) ! i)) (getattr_default x (fst ((p # ps) ! i)) PNone) = Inl e \<and>
      (\<forall>j<i. validate (snd ((p # ps) ! j)) (getattr_default x (fst ((p # ps) ! j)) PNone) = Inr ())"
        by (intro exI[of _ 0]) simp
    next
      assume "\<exists>i<length (p # ps). validate (snd ((p # ps) ! i)) (getattr_default x (fst ((p # ps) ! i)) PNone) = Inl e \<and>
      (\<forall>j<i. validate (snd ((p # ps) ! j)) (getattr_default x (fst ((p # ps) ! j)) PNone) = Inr ())"
      then obtain i where i: "i < length (p # ps)"
        "validate (snd ((p # ps) ! i)) (getattr_default x (fst ((p # ps) ! i)) PNone) = Inl e"
        "\<forall>j<i. validate (snd ((p # ps) ! j)) (getattr_default x (fst ((p # ps) ! j)) PNone) = Inr ()"
        by blast
      have "i = 0"
      proof (rule ccontr)
        assume "i \<noteq> 0"
        then have "0 < i" by simp
        with i(3) have "validate (snd ((p # ps) ! 0)) (getattr_default x (fst ((p # ps) ! 0)) PNone) = Inr ()"
          by blast
        with Inl p show False by simp
      qed
      with i(2) Inl p show "validate_items x (p # ps) = Inl e" by simp
    qed
  next
    case (Inr u)
    have step: "validate_items x (p # ps) = validate_items x ps" using Inr p by simp
    show ?thesis
    proof
      assume "validate_items x (p # ps) = Inl e"
      with step Cons.IH obtain i where i: "i < length ps"
        "validate (snd (ps ! i)) (getattr_default x (fst (ps ! i)) PNone) = Inl e"
        "\<forall>j<i. validate (snd (ps ! j)) (getattr_default x (fst (ps ! j)) PNone) = Inr ()"
        by auto
      have "\<forall>j<Suc i. validate (snd ((p # ps) ! j)) (getattr_default x (fst ((p # ps) ! j)) PNone) = Inr ()"
      proof (intro allI impI)
        fix j assume "j < Suc i"
        then show "validate (snd ((p # ps) ! j)) (getattr_default x (fst ((p # ps) ! j)) PNone) = Inr ()"
          using i(3) Inr p by (cases j) auto
      qed
      with i(1,2) show "\<exists>i<length (p # ps). validate (snd ((p # ps) ! i)) (getattr_default x (fst ((p # ps) ! i)) PNone) = Inl e \<and>
      (\<forall>j<i. validate (snd ((p # ps) ! j)) (getattr_default x (fst ((p # ps) ! j)) PNone) = Inr ())"
        by (intro exI[of _ "Suc i"]) simp
    next
      assume "\<exists>i<length (p # ps). validate (snd ((p # ps) ! i)) (getattr_default x (fst ((p # ps) ! i)) PNone) = Inl e \<and>
      (\<forall>j<i. validate (snd ((p # ps) ! j)) (getattr_default x (fst ((p # ps) ! j)) PNone) = Inr ())"
      then obtain i where i: "i < length (p # ps)"
        "validate (snd ((p # ps) ! i)) (getattr_default x (fst ((p # ps) ! i)) PNone) = Inl e"
        "\<forall>j<i. validate (snd ((p # ps) ! j)) (getattr_default x (fst ((p # ps) ! j)) PNone) = Inr ()"
        by blast
      from i(2) Inr p obtain i' where i': "i = Suc i'" by (cases i) auto
      have "\<forall>j<i'. validate (snd (ps ! j)) (getattr_default x (fst (ps ! j)) PNone) = Inr ()"
      proof (intro allI impI)
        fix j assume "j < i'"
        then have "Suc j < i" using i' by simp
        with i(3) have "validate (snd ((p # ps) ! Suc j)) (getattr_default x (fst ((p # ps) ! Suc j)) PNone) = Inr ()"
          by blast
        then show "validate (snd (ps ! j)) (getattr_default x (fst (ps ! j)) PNone) = Inr ()" by simp
      qed
      with i i' have "\<exists>i<length ps. validate (snd (ps ! i)) (getattr_default x (fst (ps ! i)) PNone) = Inl e \<and>
      (\<forall>j<i. validate (snd (ps ! j)) (getattr_default x (fst (ps ! j)) PNone) = Inr ())"
        by (intro exI[of _ i']) simp
      with Cons.IH step show "validate_items x (p # ps) = Inl e" by simp
    qed
  qed
qed


lemma scan_mappings_keys:
  "scan items st = Inr st' \<Longrightarrow>
   fst ` set (st_mappings st) \<subseteq> fst ` set (st_attrs st) \<Longrightarrow>
   fst ` set (st_mappings st') \<subseteq> fst ` set (st_attrs st')"
proof (induction items st rule: scan.induct)
  case (1 st) then show ?case by simp
next
  case (2 k v rest st)
  then show ?case by (auto split: if_splits simp: keys_dict_set)
next
  case (3 k v rest st)
  then show ?case by auto
qed

text \<open>
  Registration allocates the list \<open>__modified__\<close> of the new class at a fresh address, so
  two registered classes never share it.
\<close>

lemma registration_allocates_list:
  "ModelMetaclass_new h name attrs = Inr (ModelClass c, h') \<Longrightarrow>
   cls_modified c = next_ref h \<and> next_ref h' = Suc (next_ref h)"
  by (auto simp: ModelMetaclass_new_def IdField_init_eq Let_def new_list_def
           split: sum.splits if_splits prod.splits)

text \<open>
  A new instance of a registered class is well formed, and attribute writes, default
  resolution and \<open>save\<close> keep it so.
\<close>

lemma registered_well_formed:
  assumes "distinct (map fst attrs)"
    and "ModelMetaclass_new h name attrs = Inr (ModelClass c, h')"
    and "Model_new h' c = (x, h'')"
  shows "well_formed h'' x \<and> dirty_attrs h'' x = []"
proof -
  let ?items = "dict_set ''_id'' (FieldObj IdField) attrs"
  from assms(2) obtain st where sc: "scan ?items scan_init = Inr st"
    and c: "cls_mappings c = st_mappings st" "cls_attrs c = st_attrs st"
      "cls_modified c = next_ref h" and h': "h' = snd (new_list h)"
    by (auto simp: ModelMetaclass_new_def IdField_init_eq Let_def new_list_def
             split: sum.splits if_splits prod.splits)
  from assms(3) have x: "inst_class x = c" and h'': "cells h'' = cells h'"
    by (auto simp: Model_new_def)
  have id: "map_of (st_mappings st) ''_id'' = Some IdField"
    using scan_mappings_entry[OF distinct_dict_set[OF assms(1)] dict_set_mem sc] .
  then have "(''_id'', IdField) \<in> set (st_mappings st)" by (rule map_of_SomeD)
  then have a: "''_id'' \<in> fst ` set (st_mappings st)" by force
  have b: "fst ` set (st_mappings st) \<subseteq> fst ` set (st_attrs st)"
    using scan_mappings_keys[OF sc] by (simp add: scan_init_def)
  have d: "dirty_attrs h'' x = []"
    using x c(3) h' h'' by (simp add: dirty_attrs_def new_list_def)
  from a b d x c show ?thesis by (simp add: well_formed_def)
qed

lemma setattr_well_formed:
  "well_formed h x \<Longrightarrow> Model_setattr h x key v = (r, h', x') \<Longrightarrow> well_formed h' x'"
proof -
  assume wf: "well_formed h x" and step: "Model_setattr h x key v = (r, h', x')"
  let ?c = "inst_class x"
  from step have cls: "inst_class x' = ?c"
    by (auto simp: Model_setattr_def split: option.splits sum.splits)
  have dirty: "set (cells h' (cls_modified ?c)) \<subseteq> fst ` set (cls_mappings ?c)"
  proof (cases "map_of (cls_mappings ?c) key")
    case None
    with step have "h' = h" by (simp add: Model_setattr_def)
    with wf show ?thesis by (simp add: well_formed_def dirty_attrs_def)
  next
    case (Some f)
    then have "(key, f) \<in> set (cls_mappings ?c)" by (rule map_of_SomeD)
    then have key: "key \<in> fst ` set (cls_mappings ?c)" by force
    from step Some have "h' = h \<or> h' = list_append h (cls_modified ?c) key"
      by (auto simp: Model_setattr_def split: sum.splits)
    moreover from wf have "set (cells h (cls_modified ?c)) \<subseteq> fst ` set (cls_mappings ?c)"
      by (simp add: well_formed_def dirty_attrs_def)
    ultimately show ?thesis using key
      by (elim disjE) (simp_all add: list_append_def)
  qed
  from wf cls dirty show ?thesis by (simp add: well_formed_def dirty_attrs_def)
qed

lemma get_value_or_default_well_formed:
  "well_formed h x \<Longrightarrow> get_value_or_default h x key = (r, h', x') \<Longrightarrow> well_formed h' x'"
  by (auto simp: get_value_or_default_def Let_def
           split: option.splits if_splits sum.splits prod.splits
           dest: setattr_well_formed)

lemma save_well_formed:
  "well_formed h x \<Longrightarrow> save h x = (r, h', x') \<Longrightarrow> well_formed h' x'"
  by (auto simp: save_def well_formed_def dirty_attrs_def list_clear_def
           split: sum.splits if_splits)

text \<open>
  What a validated write does to the list that another instance \<open>y\<close> reads: it grows
  when \<open>y\<close> is of the class of the written instance, and only then.
\<close>

lemma setattr_dirty_of_others:
  assumes "map_of (cls_mappings (inst_class x)) key = Some f" and "validate f v = Inr ()"
    and "Model_setattr h x key v = (r, h', x')"
  shows "dirty_attrs h' y =
           (if cls_modified (inst_class y) = cls_modified (inst_class x)
            then dirty_attrs h y @ [key] else dirty_attrs h y)"
  using assms by (auto simp: Model_setattr_def dirty_attrs_def list_append_def)

subsection \<open>The example instances\<close>

lemma heap2_eq: "heap2 = \<lparr> cells = (\<lambda>_. []), next_ref = 3 \<rparr>"
  by (simp add: heap2_def heap1_eq Model_new_def)

lemma construct_a: "Model_new heap1 User = (user_a, heap1\<lparr> next_ref := 2 \<rparr>)"
  by (simp add: Model_new_def heap1_eq user_a_def)

lemma construct_b: "Model_new (heap1\<lparr> next_ref := 2 \<rparr>) User = (user_b, heap2)"
  by (simp add: Model_new_def heap1_eq user_b_def heap2_eq)

lemma set_name: "Model_setattr heap2 user_a ''name'' (PStr ''bob'') = (Inr (), heap3, user_a_named)"
  by (simp add: Model_setattr_def user_a_def User_def name_field_def validate_def heap3_def user_a_named_def)

lemma set_id: "Model_setattr heap3 user_a_named ''_id'' (PObjectId ''5ff6'') = (Inr (), heap4, user_a_stored)"
  by (simp add: Model_setattr_def user_a_def User_def IdField_def validate_def heap4_def user_a_named_def user_a_stored_def)



subsection \<open>Claims about instances\<close>

text \<open>
  C3. A write to a mapped attribute first runs \<open>validate\<close> of its field on the value. If
  that raises, the same error comes out and neither the store nor the instance changes.
  If it passes, the attribute name is appended once to \<open>dirty_attrs\<close> and the value is
  stored. A write to an unmapped attribute stores the value, with no validation and no
  change of \<open>dirty_attrs\<close>.
\<close>

theorem attribute_write_validated:
  "(map_of (cls_mappings (inst_class x)) key = Some f \<and> validate f v = Inl e \<longrightarrow>
      Model_setattr h x key v = (Inl e, h, x)) \<and>
   (map_of (cls_mappings (inst_class x)) key = Some f \<and> validate f v = Inr () \<longrightarrow>
      Model_setattr h x key v =
        (Inr (), list_append h (cls_modified (inst_class x)) key,
         x\<lparr> inst_dict := dict_set key v (inst_dict x) \<rparr>) \<and>
      dirty_attrs (list_append h (cls_modified (inst_class x)) key)
        (x\<lparr> inst_dict := dict_set key v (inst_dict x) \<rparr>) = dirty_attrs h x @ [key] \<and>
      lookup_attr (x\<lparr> inst_dict := dict_set key v (inst_dict x) \<rparr>) key = Some v) \<and>
   (map_of (cls_mappings (inst_class x)) key = None \<longrightarrow>
      Model_setattr h x key v = (Inr (), h, x\<lparr> inst_dict := dict_set key v (inst_dict x) \<rparr>) \<and>
      lookup_attr (x\<lparr> inst_dict := dict_set key v (inst_dict x) \<rparr>) key = Some v)"
  by (simp add: Model_setattr_def dirty_attrs_def list_append_def lookup_attr_def map_of_dict_set)

theorem attribute_write_validated_witness:
  "map_of (cls_mappings (inst_class user_a)) ''name'' = Some name_field \<and>
   validate name_field (PInt 3) = Inl (Exc TypeError (ValueNotInstance (PInt 3) T_str)) \<and>
   Model_setattr heap2 user_a ''name'' (PInt 3) =
     (Inl (Exc TypeError (ValueNotInstance (PInt 3) T_str)), heap2, user_a) \<and>
   validate name_field (PStr ''bob'') = Inr () \<and>
   Model_setattr heap2 user_a ''name'' (PStr ''bob'') = (Inr (), heap3, user_a_named) \<and>
   dirty_attrs heap2 user_a = [] \<and> dirty_attrs heap3 user_a_named = [''name''] \<and>
   lookup_attr user_a_named ''name'' = Some (PStr ''bob'') \<and>
   map_of (cls_mappings (inst_class user_a)) ''nick'' = None \<and>
   Model_setattr heap2 user_a ''nick'' (PInt 3) =
     (Inr (), heap2, user_a\<lparr> inst_dict := dict_set ''nick'' (PInt 3) (inst_dict user_a) \<rparr>)"
proof -
  have m: "map_of (cls_mappings (inst_class user_a)) ''name'' = Some name_field"
    by (simp add: user_a_def User_def)
  have bad: "validate name_field (PInt 3) = Inl (Exc TypeError (ValueNotInstance (PInt 3) T_str))"
    by (simp add: validate_def name_field_def)
  have good: "validate name_field (PStr ''bob'') = Inr ()"
    by (simp add: validate_def name_field_def)
  have un: "map_of (cls_mappings (inst_class user_a)) ''nick'' = None"
    by (simp add: user_a_def User_def)
  have h3: "list_append heap2 (cls_modified (inst_class user_a)) ''name'' = heap3"
    by (simp add: heap3_def user_a_def User_def)
  have a': "user_a\<lparr> inst_dict := dict_set ''name'' (PStr ''bob'') (inst_dict user_a) \<rparr> = user_a_named"
    by (simp add: user_a_named_def user_a_def)
  have d0: "dirty_attrs heap2 user_a = []"
    by (simp add: dirty_attrs_def heap2_eq)
  from attribute_write_validated[of user_a "''name''" name_field "PInt 3"
      "Exc TypeError (ValueNotInstance (PInt 3) T_str)" heap2] m bad
  have r1: "Model_setattr heap2 user_a ''name'' (PInt 3) =
     (Inl (Exc TypeError (ValueNotInstance (PInt 3) T_str)), heap2, user_a)" by simp
  from attribute_write_validated[of user_a "''name''" name_field "PStr ''bob''" _ heap2] m good
  have r2: "Model_setattr heap2 user_a ''name'' (PStr ''bob'') = (Inr (), heap3, user_a_named)"
    and r3: "dirty_attrs heap3 user_a_named = [''name'']"
    and r4: "lookup_attr user_a_named ''name'' = Some (PStr ''bob'')"
    by (simp_all add: h3 a' d0)
  from attribute_write_validated[of user_a "''nick''" _ "PInt 3" _ heap2] un
  have r5: "Model_setattr heap2 user_a ''nick'' (PInt 3) =
     (Inr (), heap2, user_a\<lparr> inst_dict := dict_set ''nick'' (PInt 3) (inst_dict user_a) \<rparr>)"
    by simp
  from m bad r1 good r2 d0 r3 r4 un r5 show ?thesis by blast
qed

text \<open>
  C4 (the code at the failing input). The claim says that \<open>dirty_attrs\<close> belongs to one
  instance. In the code the list is one object per class: with \<open>a = User()\<close> and
  \<open>b = User()\<close>, two objects, the write \<open>a.name = 'bob'\<close> makes the \<open>dirty_attrs\<close> of \<open>b\<close>
  \<open>['name']\<close>, and an instance constructed afterwards starts with \<open>['name']\<close>, not empty.
\<close>

theorem dirty_list_shared_by_instances:
  "Model_new heap1 User = (user_a, heap1\<lparr> next_ref := 2 \<rparr>) \<and>
   Model_new (heap1\<lparr> next_ref := 2 \<rparr>) User = (user_b, heap2) \<and>
   inst_id user_a \<noteq> inst_id user_b \<and>
   dirty_attrs heap2 user_b = [] \<and>
   Model_setattr heap2 user_a ''name'' (PStr ''bob'') = (Inr (), heap3, user_a_named) \<and>
   dirty_attrs heap3 user_b = [''name''] \<and>
   dirty_attrs (snd (Model_new heap3 User)) (fst (Model_new heap3 User)) = [''name'']"
  by (simp add: construct_a construct_b set_name)
     (simp add: user_a_def user_b_def dirty_attrs_def heap3_def heap2_eq list_append_def
        Model_new_def User_def)



lemma validate_items_Inr_iff:
  "validate_items x ms = Inr () \<longleftrightarrow>
   (\<forall>i<length ms. validate (snd (ms ! i)) (getattr_default x (fst (ms ! i)) PNone) = Inr ())"
proof (induction ms)
  case Nil then show ?case by simp
next
  case (Cons p ps)
  obtain n f where p: "p = (n, f)" by (cases p)
  show ?case
  proof (cases "validate f (getattr_default x n PNone)")
    case (Inl e)
    then have "validate (snd ((p # ps) ! 0)) (getattr_default x (fst ((p # ps) ! 0)) PNone) \<noteq> Inr ()"
      using p by simp
    then have "\<not> (\<forall>i<length (p # ps).
        validate (snd ((p # ps) ! i)) (getattr_default x (fst ((p # ps) ! i)) PNone) = Inr ())"
      by (metis length_greater_0_conv list.distinct(1))
    with Inl p show ?thesis by simp
  next
    case (Inr u)
    have "(\<forall>i<length (p # ps).
        validate (snd ((p # ps) ! i)) (getattr_default x (fst ((p # ps) ! i)) PNone) = Inr ()) \<longleftrightarrow>
      (\<forall>i<length ps. validate (snd (ps ! i)) (getattr_default x (fst (ps ! i)) PNone) = Inr ())"
      using Inr p by (auto simp: nth_Cons split: nat.splits)
    with Cons.IH Inr p show ?thesis by simp
  qed
qed

lemma lower_Account: "lower ''Account'' = ''account''"
  by code_simp

lemma register_Account:
  "ModelMetaclass_new empty_heap ''Account'' Account_body = Inr (ModelClass Account, heap1)"
  by (simp add: ModelMetaclass_new_def Account_body_def Account_def IdField_init_eq
      lower_Account scan_init_def owner_field_def balance_field_def code_field_def IdField_def
      heap1_def new_list_def empty_heap_def)

lemma construct_account:
  "Model_new heap1 Account = (account_new, heap1\<lparr> next_ref := 2 \<rparr>)"
  by (simp add: Model_new_def heap1_eq account_new_def)

lemma set_owner:
  "Model_setattr (heap1\<lparr> next_ref := 2 \<rparr>) account_new ''owner'' (PStr ''ann'') =
     (Inr (), heap_acct, account_x)"
  by (simp add: heap_acct_def construct_account)
     (simp add: Model_setattr_def account_new_def account_x_def Account_def owner_field_def
        validate_def)

lemma heap_acct_cells: "cells heap_acct 0 = [''owner'']"
  by (simp add: heap_acct_def Model_new_def heap1_eq list_append_def)

text \<open>
  C6. \<open>save\<close> runs \<open>validate_fields\<close> first, and when that fails \<open>save\<close> fails with the
  same error and leaves the store and the instance, \<open>dirty_attrs\<close> and every stored value,
  as they were. \<open>validate_fields\<close> checks the mapped fields in order, each against the
  current value of its attribute, and fails with the error of the first field that fails,
  the fields before it having passed; it passes exactly when every field passes. The
  current value of an attribute is the value stored on the instance when there is one,
  else the value bound to the name on the class (for a mapped name, the default of its
  field), else \<open>None\<close>.
\<close>

theorem save_aborts_on_validation_failure:
  "(validate_fields x = Inl e \<longrightarrow> save h x = (Inl e, h, x)) \<and>
   (validate_fields x = Inl e \<longleftrightarrow>
      (\<exists>i<length (cls_mappings (inst_class x)).
         validate (snd (cls_mappings (inst_class x) ! i))
           (getattr_default x (fst (cls_mappings (inst_class x) ! i)) PNone) = Inl e \<and>
         (\<forall>j<i. validate (snd (cls_mappings (inst_class x) ! j))
                  (getattr_default x (fst (cls_mappings (inst_class x) ! j)) PNone) = Inr ()))) \<and>
   (validate_fields x = Inr () \<longleftrightarrow>
      (\<forall>i<length (cls_mappings (inst_class x)).
         validate (snd (cls_mappings (inst_class x) ! i))
           (getattr_default x (fst (cls_mappings (inst_class x) ! i)) PNone) = Inr ())) \<and>
   (\<forall>n v. map_of (inst_dict x) n = Some v \<longrightarrow> getattr_default x n PNone = v) \<and>
   (\<forall>n v. map_of (inst_dict x) n = None \<and> map_of (cls_attrs (inst_class x)) n = Some v \<longrightarrow>
      getattr_default x n PNone = v) \<and>
   (\<forall>n. map_of (inst_dict x) n = None \<and> map_of (cls_attrs (inst_class x)) n = None \<longrightarrow>
      getattr_default x n PNone = PNone) \<and>
   (\<forall>n. lookup_attr x n = None \<longrightarrow> getattr_default x n PNone = PNone)"
proof (intro conjI)
  show "validate_fields x = Inl e \<longrightarrow> save h x = (Inl e, h, x)"
    by (simp add: save_def)
  show "validate_fields x = Inl e \<longleftrightarrow>
      (\<exists>i<length (cls_mappings (inst_class x)).
         validate (snd (cls_mappings (inst_class x) ! i))
           (getattr_default x (fst (cls_mappings (inst_class x) ! i)) PNone) = Inl e \<and>
         (\<forall>j<i. validate (snd (cls_mappings (inst_class x) ! j))
                  (getattr_default x (fst (cls_mappings (inst_class x) ! j)) PNone) = Inr ()))"
    unfolding validate_fields_def by (rule validate_items_Inl_iff)
  show "validate_fields x = Inr () \<longleftrightarrow>
      (\<forall>i<length (cls_mappings (inst_class x)).
         validate (snd (cls_mappings (inst_class x) ! i))
           (getattr_default x (fst (cls_mappings (inst_class x) ! i)) PNone) = Inr ())"
    unfolding validate_fields_def by (rule validate_items_Inr_iff)
  show "\<forall>n v. map_of (inst_dict x) n = Some v \<longrightarrow> getattr_default x n PNone = v"
    by (simp add: getattr_default_def lookup_attr_def)
  show "\<forall>n v. map_of (inst_dict x) n = None \<and> map_of (cls_attrs (inst_class x)) n = Some v \<longrightarrow>
      getattr_default x n PNone = v"
    by (simp add: getattr_default_def lookup_attr_def)
  show "\<forall>n. map_of (inst_dict x) n = None \<and> map_of (cls_attrs (inst_class x)) n = None \<longrightarrow>
      getattr_default x n PNone = PNone"
    by (simp add: getattr_default_def lookup_attr_def)
  show "\<forall>n. lookup_attr x n = None \<longrightarrow> getattr_default x n PNone = PNone"
    by (simp add: getattr_default_def)
qed

theorem save_aborts_on_validation_failure_witness:
  "Model_setattr (heap1\<lparr> next_ref := 2 \<rparr>) account_new ''owner'' (PStr ''ann'') =
     (Inr (), heap_acct, account_x) \<and>
   map_of (inst_dict account_x) ''owner'' = Some (PStr ''ann'') \<and>
   getattr_default account_x ''owner'' PNone = PStr ''ann'' \<and>
   validate owner_field (PStr ''ann'') = Inr () \<and>
   validate owner_field PNone = Inl (Exc TypeError (ValueNotInstance PNone T_str)) \<and>
   map_of (inst_dict account_x) ''balance'' = None \<and>
   map_of (cls_attrs (inst_class account_x)) ''balance'' = Some PNone \<and>
   getattr_default account_x ''balance'' PNone = PNone \<and>
   validate balance_field PNone = Inl (Exc TypeError (ValueNotInstance PNone T_int)) \<and>
   validate code_field (getattr_default account_x ''code'' PNone) =
     Inl (Exc TypeError (ValueNotInstance PNone T_str)) \<and>
   validate_fields account_x = Inl (Exc TypeError (ValueNotInstance PNone T_int)) \<and>
   validate_fields account_x \<noteq> Inr () \<and>
   dirty_attrs heap_acct account_x = [''owner''] \<and>
   list_clear heap_acct (cls_modified (inst_class account_x)) \<noteq> heap_acct \<and>
   save heap_acct account_x =
     (Inl (Exc TypeError (ValueNotInstance PNone T_int)), heap_acct, account_x) \<and>
   map_of (inst_dict account_x) ''nick'' = None \<and>
   map_of (cls_attrs (inst_class account_x)) ''nick'' = None \<and>
   getattr_default account_x ''nick'' PNone = PNone"
proof -
  let ?e = "Exc TypeError (ValueNotInstance PNone T_int)"
  let ?ms = "cls_mappings (inst_class account_x)"
  note inst = save_aborts_on_validation_failure[of account_x ?e heap_acct]
  have ms: "?ms = [(''owner'', owner_field), (''balance'', balance_field),
                   (''code'', code_field), (''_id'', IdField)]"
    by (simp add: account_x_def account_new_def Account_def)
  have so: "map_of (inst_dict account_x) ''owner'' = Some (PStr ''ann'')"
    by (simp add: account_x_def account_new_def)
  have sb: "map_of (inst_dict account_x) ''balance'' = None"
    by (simp add: account_x_def account_new_def)
  have cb: "map_of (cls_attrs (inst_class account_x)) ''balance'' = Some PNone"
    by (simp add: account_x_def account_new_def Account_def)
  have sc: "map_of (inst_dict account_x) ''code'' = None"
    by (simp add: account_x_def account_new_def)
  have cc: "map_of (cls_attrs (inst_class account_x)) ''code'' = Some PNone"
    by (simp add: account_x_def account_new_def Account_def)
  have sn: "map_of (inst_dict account_x) ''nick'' = None"
    by (simp add: account_x_def account_new_def)
  have cn: "map_of (cls_attrs (inst_class account_x)) ''nick'' = None"
    by (simp add: account_x_def account_new_def Account_def)
  from inst so have go: "getattr_default account_x ''owner'' PNone = PStr ''ann''" by blast
  from inst sb cb have gb: "getattr_default account_x ''balance'' PNone = PNone" by blast
  from inst sc cc have gc: "getattr_default account_x ''code'' PNone = PNone" by blast
  from inst sn cn have gn: "getattr_default account_x ''nick'' PNone = PNone" by blast
  have vo: "validate owner_field (PStr ''ann'') = Inr ()"
    by (simp add: validate_def owner_field_def)
  have vo': "validate owner_field PNone = Inl (Exc TypeError (ValueNotInstance PNone T_str))"
    by (simp add: validate_def owner_field_def)
  have vb: "validate balance_field PNone = Inl ?e"
    by (simp add: validate_def balance_field_def)
  have vc: "validate code_field (getattr_default account_x ''code'' PNone) =
              Inl (Exc TypeError (ValueNotInstance PNone T_str))"
    by (simp add: gc validate_def code_field_def)
  have first: "\<exists>i<length ?ms.
         validate (snd (?ms ! i)) (getattr_default account_x (fst (?ms ! i)) PNone) = Inl ?e \<and>
         (\<forall>j<i. validate (snd (?ms ! j)) (getattr_default account_x (fst (?ms ! j)) PNone) = Inr ())"
    by (rule exI[of _ 1]) (simp add: ms go gb vo vb)
  with inst have vf: "validate_fields account_x = Inl ?e" by blast
  then have nr: "validate_fields account_x \<noteq> Inr ()" by simp
  from inst vf have sv: "save heap_acct account_x = (Inl ?e, heap_acct, account_x)" by blast
  have d: "dirty_attrs heap_acct account_x = [''owner'']"
    by (simp add: dirty_attrs_def account_x_def account_new_def Account_def heap_acct_cells)
  have "cells (list_clear heap_acct (cls_modified (inst_class account_x))) 0 = []"
    by (simp add: list_clear_def account_x_def account_new_def Account_def)
  then have ne: "list_clear heap_acct (cls_modified (inst_class account_x)) \<noteq> heap_acct"
    using heap_acct_cells by auto
  from set_owner so go vo vo' sb cb gb vb vc vf nr d ne sv sn cn gn show ?thesis by blast
qed

text \<open>
  C7 (the code at the failing inputs). The claim says that, when no value is stored,
  \<open>get_value_or_default\<close> resolves the default, calling it when it is callable, stores
  the result on the instance and returns it. With the default of \<open>age\<close> a producer of 18
  and no stored value, the code returns the producer itself, not called, and stores
  nothing; with the default of \<open>rank\<close> 7 and the stored value \<open>None\<close>, it returns \<open>None\<close>
  and stores nothing.
\<close>

theorem callable_default_not_invoked:
  "map_of (cls_mappings (inst_class person_x)) ''age'' = Some age_field \<and>
   default_val age_field = PCallable (PInt 18) \<and>
   call0 (default_val age_field) = Inr (PInt 18) \<and>
   map_of (inst_dict person_x) ''age'' = None \<and>
   get_value_or_default h person_x ''age'' = (Inr (PCallable (PInt 18)), h, person_x) \<and>
   default_val rank_field = PInt 7 \<and>
   map_of (inst_dict person_y) ''rank'' = Some PNone \<and>
   get_value_or_default h person_y ''rank'' = (Inr PNone, h, person_y)"
  by (simp add: get_value_or_default_def person_x_def person_y_def Person_def
      getattr_default_def lookup_attr_def age_field_def rank_field_def Let_def)

text \<open>
  C8. In \<open>get_value_or_default\<close> the default is resolved and stored only when the
  default of the field is falsy: with a truthy default the looked-up value comes back,
  \<open>None\<close> included, and nothing changes. A looked-up value other than \<open>None\<close>, falsy or
  not, comes back as it is. When the looked-up value is \<open>None\<close> and the default is
  falsy, the default is written through \<open>__setattr__\<close> and returned.
\<close>

theorem default_resolution_only_if_falsy:
  "(map_of (cls_mappings (inst_class x)) key = Some f \<and> truthy (default_val f) \<longrightarrow>
      get_value_or_default h x key = (Inr (getattr_default x key PNone), h, x)) \<and>
   (getattr_default x key PNone \<noteq> PNone \<longrightarrow>
      get_value_or_default h x key = (Inr (getattr_default x key PNone), h, x)) \<and>
   (map_of (cls_mappings (inst_class x)) key = Some f \<and> \<not> truthy (default_val f) \<and>
    getattr_default x key PNone = PNone \<longrightarrow>
      get_value_or_default h x key =
        (case Model_setattr h x key (default_val f) of
           (Inl e, s) \<Rightarrow> (Inl e, s)
         | (Inr _, s) \<Rightarrow> (Inr (default_val f), s)))"
  by (auto simp: get_value_or_default_def Let_def falsy_not_callable split: sum.splits prod.splits)

theorem default_resolution_only_if_falsy_witness:
  "map_of (cls_mappings (inst_class person_y)) ''rank'' = Some rank_field \<and>
   truthy (default_val rank_field) \<and> getattr_default person_y ''rank'' PNone = PNone \<and>
   get_value_or_default heap1 person_y ''rank'' = (Inr PNone, heap1, person_y) \<and>
   getattr_default user_a_named ''name'' PNone \<noteq> PNone \<and>
   get_value_or_default heap3 user_a_named ''name'' = (Inr (PStr ''bob''), heap3, user_a_named) \<and>
   map_of (cls_mappings (inst_class user_a)) ''_id'' = Some IdField \<and>
   \<not> truthy (default_val IdField) \<and> getattr_default user_a ''_id'' PNone = PNone \<and>
   get_value_or_default heap2 user_a ''_id'' =
     (Inr PNone, list_append heap2 0 ''_id'', user_a\<lparr> inst_dict := [(''_id'', PNone)] \<rparr>)"
proof -
  have m1: "map_of (cls_mappings (inst_class person_y)) ''rank'' = Some rank_field"
    by (simp add: person_y_def Person_def)
  have t1: "truthy (default_val rank_field)" by (simp add: rank_field_def)
  have g1: "getattr_default person_y ''rank'' PNone = PNone"
    by (simp add: getattr_default_def lookup_attr_def person_y_def)
  from default_resolution_only_if_falsy[of person_y "''rank''" rank_field heap1] m1 t1 g1
  have r1: "get_value_or_default heap1 person_y ''rank'' = (Inr PNone, heap1, person_y)"
    by simp
  have g2: "getattr_default user_a_named ''name'' PNone = PStr ''bob''"
    by (simp add: getattr_default_def lookup_attr_def user_a_named_def user_a_def)
  from default_resolution_only_if_falsy[of user_a_named "''name''" _ heap3] g2
  have r2: "get_value_or_default heap3 user_a_named ''name'' =
              (Inr (PStr ''bob''), heap3, user_a_named)"
    by simp
  have m3: "map_of (cls_mappings (inst_class user_a)) ''_id'' = Some IdField"
    by (simp add: user_a_def User_def)
  have t3: "\<not> truthy (default_val IdField)" by (simp add: IdField_def)
  have d3: "default_val IdField = PNone" by (simp add: IdField_def)
  have g3: "getattr_default user_a ''_id'' PNone = PNone"
    by (simp add: getattr_default_def lookup_attr_def user_a_def User_def)
  have s3: "Model_setattr heap2 user_a ''_id'' PNone =
     (Inr (), list_append heap2 0 ''_id'', user_a\<lparr> inst_dict := [(''_id'', PNone)] \<rparr>)"
    by (simp add: Model_setattr_def user_a_def User_def IdField_def validate_def)
  from default_resolution_only_if_falsy[of user_a "''_id''" IdField heap2] m3 t3 g3
  have r3: "get_value_or_default heap2 user_a ''_id'' =
     (Inr PNone, list_append heap2 0 ''_id'', user_a\<lparr> inst_dict := [(''_id'', PNone)] \<rparr>)"
    by (simp add: d3 s3)
  from m1 t1 g1 r1 g2 r2 m3 t3 g3 r3 show ?thesis by simp
qed


end
